theory Spec2Isabelle
  imports Complex_Main "HOL-Library.Word"
begin

section \<open>Response classifier: \<open>analyze_capture_quality\<close>\<close>

text \<open>
  The probe scripts read a response buffer from the sensor and grade it by how dense
  its data is. A buffer is a Python \<open>bytes\<close> or \<open>array('B')\<close> value: a list of
  bytes. The callers hand over whatever \<open>send_and_receive\<close> returned, which may
  be \<open>None\<close>; the parameter is therefore an optional buffer, and the guard
  \<open>not data\<close> holds for \<open>None\<close> and for the empty buffer.

  Python computes the percentages in double precision. The model computes them in the
  reals: the quotients compared against the thresholds have a denominator that is the
  buffer length or 256, so for any buffer that fits in memory the rounding error of the
  double (about \<open>10\<^sup>-\<^sup>1\<^sup>6\<close> relative) is far below the distance of an
  inexact quotient to a threshold, and the comparisons agree. The variance and the
  score are real numbers as well, where Python rounds them; the properties below use
  them only where the two agree (a score of 0) or do not depend on them.
\<close>

type_synonym byte = "8 word"

text \<open>The four labels of the \<open>if\<close>/\<open>elif\<close> cascade.\<close>

datatype status = EXCELLENT | GOOD | FAIR | POOR

text \<open>
  The text the function returns, kept as the arguments of its format string, before the
  format rounds them to one or two decimals:
  \<^item> \<open>No_data\<close> is the literal \<open>"No data"\<close>;
  \<^item> \<open>Scored st p e v s\<close> is
    \<open>f"{status} ({percentage:.1f}% non-zero, entropy: {entropy:.2f}, variance: {variance:.1f}, score: {quality_score:.1f})"\<close>
    of \<open>adaptive_calibration.py\<close>;
  \<^item> \<open>Rated st p e\<close> is \<open>f"{status} ({percentage:.1f}% non-zero, entropy: {entropy:.2f})"\<close>
    of \<open>eh575_calibration_protocol.py\<close>.
\<close>

datatype description =
    No_data
  | Scored status real real real real
  | Rated status real real

text \<open>\<open>sum(1 for b in data if b != 0)\<close>\<close>

definition non_zero_bytes :: "byte list \<Rightarrow> nat" where
  "non_zero_bytes data = sum_list (map (\<lambda>b. 1) (filter (\<lambda>b. b \<noteq> 0) data))"

text \<open>\<open>(non_zero_bytes / total_bytes) * 100\<close>, evaluated only behind the length guard.\<close>

definition percentage :: "byte list \<Rightarrow> real" where
  "percentage data = (real (non_zero_bytes data) / real (length data)) * 100"

text \<open>\<open>len(set(data))\<close>\<close>

definition unique_values :: "byte list \<Rightarrow> nat" where
  "unique_values data = card (set data)"

definition entropy :: "byte list \<Rightarrow> real" where
  "entropy data = real (unique_values data) / 256"

text \<open>\<open>sum(data) / len(data)\<close> and \<open>sum((b - mean) ** 2 for b in data) / len(data)\<close>\<close>

definition mean :: "byte list \<Rightarrow> real" where
  "mean data = real (sum_list (map unat data)) / real (length data)"

definition variance :: "byte list \<Rightarrow> real" where
  "variance data =
     sum_list (map (\<lambda>b. (real (unat b) - mean data) ^ 2) data) / real (length data)"

definition quality_score :: "byte list \<Rightarrow> real" where
  "quality_score data = percentage data * entropy data * (variance data / 100)"

text \<open>The cascade of \<open>adaptive_calibration.py\<close>, lines 80 to 87.\<close>

definition status_of :: "real \<Rightarrow> real \<Rightarrow> status" where
  "status_of p e =
     (if p > 30 \<and> e > 0.4 then EXCELLENT
      else if p > 15 \<and> e > 0.2 then GOOD
      else if p > 5 \<and> e > 0.1 then FAIR
      else POOR)"

text \<open>\<open>analyze_capture_quality\<close> of \<open>adaptive_calibration.py\<close>: a score and a text.\<close>

definition analyze_capture_quality :: "byte list option \<Rightarrow> real \<times> description" where
  "analyze_capture_quality d =
     (case d of
        None \<Rightarrow> (0, No_data)
      | Some data \<Rightarrow>
          if data = [] \<or> length data < 100 then (0, No_data)
          else (quality_score data,
                Scored (status_of (percentage data) (entropy data))
                  (percentage data) (entropy data) (variance data) (quality_score data)))"

text \<open>The cascade of \<open>eh575_calibration_protocol.py\<close>, lines 78 to 85.\<close>

definition status_of_eh575 :: "real \<Rightarrow> real \<Rightarrow> status" where
  "status_of_eh575 p e =
     (if p > 50 \<and> e > 0.3 then EXCELLENT
      else if p > 20 \<and> e > 0.1 then GOOD
      else if p > 5 then FAIR
      else POOR)"

text \<open>\<open>analyze_capture_quality\<close> of \<open>eh575_calibration_protocol.py\<close>: a text only.\<close>

definition analyze_capture_quality_eh575 :: "byte list option \<Rightarrow> description" where
  "analyze_capture_quality_eh575 d =
     (case d of
        None \<Rightarrow> No_data
      | Some data \<Rightarrow>
          if data = [] \<or> length data < 100 then No_data
          else Rated (status_of_eh575 (percentage data) (entropy data))
                 (percentage data) (entropy data))"

text \<open>
  What a returned text is made of: its label, and the non-zero percentage and the
  entropy the function computed and handed to the format string, if any.
  \<open>"No data"\<close> carries none of them.
\<close>

fun label :: "description \<Rightarrow> status option" where
  "label No_data = None"
| "label (Scored st p e v s) = Some st"
| "label (Rated st p e) = Some st"

fun computed_percentage :: "description \<Rightarrow> real option" where
  "computed_percentage No_data = None"
| "computed_percentage (Scored st p e v s) = Some p"
| "computed_percentage (Rated st p e) = Some p"

fun computed_entropy :: "description \<Rightarrow> real option" where
  "computed_entropy No_data = None"
| "computed_entropy (Scored st p e v s) = Some e"
| "computed_entropy (Rated st p e) = Some e"

text \<open>
  What the text shows of the percentage: \<open>{percentage:.1f}\<close> prints the value rounded
  to one decimal, so the text reads \<open>0.0% non-zero\<close> exactly when the value is below
  \<open>0.05\<close>. (At \<open>0.05\<close> itself, one non-zero byte in 2000, the double that Python
  computes lies above the decimal \<open>0.05\<close> and prints as \<open>0.1\<close>; everywhere else
  real and double are on the same side of \<open>0.05\<close> for any buffer that fits in
  memory, as with the thresholds.)
\<close>

fun reads_zero_percent :: "description \<Rightarrow> bool" where
  "reads_zero_percent No_data = False"
| "reads_zero_percent (Scored st p e v s) = (p < 0.05)"
| "reads_zero_percent (Rated st p e) = (p < 0.05)"

text \<open>
  The five texts a caller can see, in the order of the cascade: \<open>"No data"\<close> below
  POOR, FAIR, GOOD and EXCELLENT.
\<close>

fun tier_rank :: "description \<Rightarrow> nat" where
  "tier_rank d =
     (case label d of
        None \<Rightarrow> 0
      | Some POOR \<Rightarrow> 1
      | Some FAIR \<Rightarrow> 2
      | Some GOOD \<Rightarrow> 3
      | Some EXCELLENT \<Rightarrow> 4)"

section \<open>Probe runner: \<open>send_and_receive\<close>\<close>

text \<open>
  \<open>send_and_receive\<close> writes a command frame to endpoint \<open>0x01\<close> of the device,
  reads a response from endpoint \<open>0x82\<close>, prints what happened and returns the
  response or \<open>None\<close>. Its effects are the calls on the device and the printed
  lines; both are recorded, in order, in a trace.

  The exceptions the body can meet are those of the transport and of \<open>bytes(cmd)\<close>:
  \<open>usb.core.USBError\<close>, which the inner handler names, and any other class derived
  from \<open>Exception\<close> (\<open>ValueError\<close>, \<open>TypeError\<close>, \<open>NotImplementedError\<close>, ...).
  Each carries the text that \<open>str(e)\<close> gives. Interpreter signals outside
  \<open>Exception\<close> (\<open>KeyboardInterrupt\<close>, \<open>SystemExit\<close>) are not transport outcomes
  and are not modelled.
\<close>

datatype exn = USBError string | Other_Exception string

fun str :: "exn \<Rightarrow> string" where
  "str (USBError m) = m"
| "str (Other_Exception m) = m"

text \<open>The two \<open>except\<close> clauses: \<open>except usb.core.USBError\<close> and \<open>except Exception\<close>.\<close>

fun except_USBError :: "exn \<Rightarrow> bool" where
  "except_USBError (USBError m) = True"
| "except_USBError (Other_Exception m) = False"

fun except_Exception :: "exn \<Rightarrow> bool" where
  "except_Exception (USBError m) = True"
| "except_Exception (Other_Exception m) = True"

text \<open>
  The printed lines, kept as the values their format strings render:
  \<^item> \<open>Sent description cmd\<close>: the line with the description and the command in hex;
  \<^item> \<open>Response first total\<close>: the first 20 bytes of the response in hex, and the total
    length when the response is longer than 20 bytes;
  \<^item> \<open>Read_error m\<close> and \<open>Send_error m\<close>: the two error lines with \<open>str(e)\<close>.
\<close>

datatype message =
    Sent string "int list"
  | Response "byte list" "nat option"
  | Read_error string
  | Send_error string

datatype event =
    Write int "byte list" int
  | Read int int int
  | Print message

text \<open>
  The device object, as far as the function uses it: \<open>dev.write(endpoint, data, timeout)\<close>
  returns the number of bytes written or raises, \<open>dev.read(endpoint, size, timeout)\<close>
  returns the bytes read or raises; both may change the state \<open>'d\<close> of the device.
\<close>

record 'd device =
  dev_write :: "'d \<Rightarrow> int \<Rightarrow> byte list \<Rightarrow> int \<Rightarrow> (exn + int) \<times> 'd"
  dev_read :: "'d \<Rightarrow> int \<Rightarrow> int \<Rightarrow> int \<Rightarrow> (exn + byte list) \<times> 'd"

text \<open>
  A Python computation over the device state and the trace: it ends with a value
  (\<open>Inr\<close>) or with a raised exception (\<open>Inl\<close>).
\<close>

type_synonym ('d, 'a) py = "'d \<times> event list \<Rightarrow> (exn + 'a) \<times> ('d \<times> event list)"

definition return :: "'a \<Rightarrow> ('d, 'a) py" where
  "return x = (\<lambda>s. (Inr x, s))"

definition bind :: "('d, 'a) py \<Rightarrow> ('a \<Rightarrow> ('d, 'b) py) \<Rightarrow> ('d, 'b) py" where
  "bind m f = (\<lambda>s. case m s of (Inl e, s') \<Rightarrow> (Inl e, s') | (Inr x, s') \<Rightarrow> f x s')"

text \<open>\<open>try: m  except cls as e: h e\<close>: an exception the clause does not match goes on.\<close>

definition try_except ::
  "('d, 'a) py \<Rightarrow> (exn \<Rightarrow> bool) \<Rightarrow> (exn \<Rightarrow> ('d, 'a) py) \<Rightarrow> ('d, 'a) py" where
  "try_except m cls h =
     (\<lambda>s. case m s of
             (Inl e, s') \<Rightarrow> if cls e then h e s' else (Inl e, s')
           | (Inr x, s') \<Rightarrow> (Inr x, s'))"

definition print :: "message \<Rightarrow> ('d, unit) py" where
  "print m = (\<lambda>(d, tr). (Inr (), (d, tr @ [Print m])))"

definition call_write :: "'d device \<Rightarrow> int \<Rightarrow> byte list \<Rightarrow> int \<Rightarrow> ('d, int) py" where
  "call_write dev ep frame timeout =
     (\<lambda>(d, tr). case dev_write dev d ep frame timeout of
                  (r, d') \<Rightarrow> (r, (d', tr @ [Write ep frame timeout])))"

definition call_read :: "'d device \<Rightarrow> int \<Rightarrow> int \<Rightarrow> int \<Rightarrow> ('d, byte list) py" where
  "call_read dev ep n timeout =
     (\<lambda>(d, tr). case dev_read dev d ep n timeout of
                  (r, d') \<Rightarrow> (r, (d', tr @ [Read ep n timeout])))"

text \<open>
  \<open>bytes(cmd)\<close> on a list of integers: \<open>ValueError\<close> unless every element is in
  \<open>range(0, 256)\<close>.
\<close>

definition bytes :: "int list \<Rightarrow> ('d, byte list) py" where
  "bytes cmd =
     (\<lambda>s. if list_all (\<lambda>x. 0 \<le> x \<and> x < 256) cmd then (Inr (map word_of_int cmd), s)
          else (Inl (Other_Exception ''bytes must be in range(0, 256)''), s))"

text \<open>
  \<open>'timeout' in str(e).lower()\<close>. The characters of the model are bytes; on ASCII,
  \<open>lower\<close> maps \<open>A\<close> to \<open>Z\<close> onto \<open>a\<close> to \<open>z\<close> and leaves the rest.
\<close>

definition lower_char :: "char \<Rightarrow> char" where
  "lower_char c =
     (case map_of (zip ''ABCDEFGHIJKLMNOPQRSTUVWXYZ'' ''abcdefghijklmnopqrstuvwxyz'') c of
        Some l \<Rightarrow> l
      | None \<Rightarrow> c)"

definition lower :: "string \<Rightarrow> string" where
  "lower s = map lower_char s"

fun starts_with :: "string \<Rightarrow> string \<Rightarrow> bool" where
  "starts_with [] s = True"
| "starts_with (c # cs) [] = False"
| "starts_with (c # cs) (x # xs) = (c = x \<and> starts_with cs xs)"

fun substring_in :: "string \<Rightarrow> string \<Rightarrow> bool" where
  "substring_in sub [] = (sub = [])"
| "substring_in sub (x # xs) = (starts_with sub (x # xs) \<or> substring_in sub xs)"

text \<open>
  \<open>send_and_receive\<close> of \<open>adaptive_calibration.py\<close>, with its \<open>description\<close>
  parameter. Every \<open>return\<close> of the source is in tail position of its block.
\<close>

definition send_and_receive_adaptive ::
  "'d device \<Rightarrow> int list \<Rightarrow> int \<Rightarrow> int \<Rightarrow> string \<Rightarrow> ('d, byte list option) py" where
  "send_and_receive_adaptive dev cmd expected_response_size timeout description =
     try_except
       (bind (bytes cmd) (\<lambda>frame.
        bind (call_write dev 0x01 frame timeout) (\<lambda>_.
        bind (print (Sent description cmd)) (\<lambda>_.
          try_except
            (bind (call_read dev 0x82 expected_response_size timeout) (\<lambda>response.
             bind (print (Response (take 20 response)
                           (if length response > 20 then Some (length response) else None)))
               (\<lambda>_. return (Some response))))
            except_USBError
            (\<lambda>e. bind (if \<not> substring_in ''timeout'' (lower (str e))
                        then print (Read_error (str e)) else return ())
                   (\<lambda>_. return None))))))
       except_Exception
       (\<lambda>e. bind (print (Send_error (str e))) (\<lambda>_. return None))"

text \<open>
  \<open>send_and_receive\<close> of \<open>capture_fingerprint.py\<close>: the same body, the first line
  printed with the fixed word \<open>Sent\<close>.
\<close>

definition send_and_receive ::
  "'d device \<Rightarrow> int list \<Rightarrow> int \<Rightarrow> int \<Rightarrow> ('d, byte list option) py" where
  "send_and_receive dev cmd expected_response_size timeout =
     try_except
       (bind (bytes cmd) (\<lambda>frame.
        bind (call_write dev 0x01 frame timeout) (\<lambda>_.
        bind (print (Sent ''Sent'' cmd)) (\<lambda>_.
          try_except
            (bind (call_read dev 0x82 expected_response_size timeout) (\<lambda>response.
             bind (print (Response (take 20 response)
                           (if length response > 20 then Some (length response) else None)))
               (\<lambda>_. return (Some response))))
            except_USBError
            (\<lambda>e. bind (if \<not> substring_in ''timeout'' (lower (str e))
                        then print (Read_error (str e)) else return ())
                   (\<lambda>_. return None))))))
       except_Exception
       (\<lambda>e. bind (print (Send_error (str e))) (\<lambda>_. return None))"

text \<open>
  The classifier run as a Python computation: the body of \<open>analyze_capture_quality\<close>
  calls neither the device nor \<open>print\<close>, and reads no variable but its parameter.
\<close>

definition analyze_capture_quality_py :: "byte list option \<Rightarrow> ('d, real \<times> description) py" where
  "analyze_capture_quality_py data = return (analyze_capture_quality data)"

definition analyze_capture_quality_eh575_py :: "byte list option \<Rightarrow> ('d, description) py" where
  "analyze_capture_quality_eh575_py data = return (analyze_capture_quality_eh575 data)"

text \<open>The events of a trace that are calls of \<open>dev.read\<close>.\<close>

fun is_Read :: "event \<Rightarrow> bool" where
  "is_Read (Read ep n t) = True"
| "is_Read (Write ep frame t) = False"
| "is_Read (Print m) = False"

section \<open>Transport stubs\<close>

text \<open>
  Six devices without state, as a test harness would stub them: one whose write
  raises, one whose read raises with a text that contains \<open>Timeout\<close>, one whose read
  raises with the text of libusb's timeout error, \<open>Operation timed out\<close>, one whose
  read raises with another USB error, one whose read raises an exception that is not a
  \<open>USBError\<close>, and one that answers.
\<close>

definition stub_write_fails :: "unit device" where
  "stub_write_fails =
     \<lparr>dev_write = (\<lambda>d ep frame t. (Inl (USBError ''[Errno 19] No such device''), d)),
      dev_read = (\<lambda>d ep n t. (Inr [0x53, 0x49, 0x47, 0x45], d))\<rparr>"

definition stub_times_out :: "unit device" where
  "stub_times_out =
     \<lparr>dev_write = (\<lambda>d ep frame t. (Inr (int (length frame)), d)),
      dev_read = (\<lambda>d ep n t. (Inl (USBError ''[Errno 110] Operation Timeout''), d))\<rparr>"

definition stub_timed_out :: "unit device" where
  "stub_timed_out =
     \<lparr>dev_write = (\<lambda>d ep frame t. (Inr (int (length frame)), d)),
      dev_read = (\<lambda>d ep n t. (Inl (USBError ''[Errno 110] Operation timed out''), d))\<rparr>"

definition stub_pipe_error :: "unit device" where
  "stub_pipe_error =
     \<lparr>dev_write = (\<lambda>d ep frame t. (Inr (int (length frame)), d)),
      dev_read = (\<lambda>d ep n t. (Inl (USBError ''[Errno 32] Pipe error''), d))\<rparr>"

definition stub_read_broken :: "unit device" where
  "stub_read_broken =
     \<lparr>dev_write = (\<lambda>d ep frame t. (Inr (int (length frame)), d)),
      dev_read = (\<lambda>d ep n t. (Inl (Other_Exception ''Invalid endpoint address 0x82''), d))\<rparr>"

definition stub_answers :: "unit device" where
  "stub_answers =
     \<lparr>dev_write = (\<lambda>d ep frame t. (Inr (int (length frame)), d)),
      dev_read = (\<lambda>d ep n t. (Inr [0x53, 0x49, 0x47, 0x45, 0x00, 0x00, 0x01], d))\<rparr>"

section \<open>Properties of the classifier\<close>

subsection \<open>The quantities of the body\<close>

lemma non_zero_bytes_filter: "non_zero_bytes data = length (filter (\<lambda>b. b \<noteq> 0) data)"
  by (simp add: non_zero_bytes_def sum_list_triv)

lemma non_zero_bytes_le: "non_zero_bytes data \<le> length data"
  by (simp add: non_zero_bytes_filter)

lemma percentage_nonneg: "0 \<le> percentage data"
  by (simp add: percentage_def)

lemma percentage_le: "percentage data \<le> 100"
proof (cases "data = []")
  case True
  then show ?thesis by (simp add: percentage_def)
next
  case False
  then have "real (non_zero_bytes data) / real (length data) \<le> 1"
    using non_zero_bytes_le [of data] by simp
  then have "real (non_zero_bytes data) / real (length data) * 100 \<le> 1 * 100"
    by (rule mult_right_mono) simp
  then show ?thesis unfolding percentage_def by simp
qed

lemma unique_values_le: "unique_values data \<le> 256"
proof -
  have "card (set data) \<le> card (UNIV :: byte set)"
    by (rule card_mono) simp_all
  then show ?thesis by (simp add: unique_values_def card_word)
qed

lemma percentage_zero_iff:
  assumes "data \<noteq> []"
  shows "percentage data = 0 \<longleftrightarrow> (\<forall>b\<in>set data. b = 0)"
proof -
  have "percentage data = 0 \<longleftrightarrow> filter (\<lambda>b. b \<noteq> 0) data = []"
    using assms by (simp add: percentage_def non_zero_bytes_filter)
  also have "\<dots> \<longleftrightarrow> (\<forall>b\<in>set data. b = 0)"
    by (simp add: filter_empty_conv)
  finally show ?thesis .
qed

subsection \<open>Buffers of zero bytes\<close>

lemma all_zero_replicate:
  assumes "\<forall>b\<in>set data. b = (0::byte)"
  shows "data = replicate (length data) 0"
  using assms by (induction data) simp_all

lemma percentage_zeros: "percentage (replicate n 0) = 0"
  by (simp add: percentage_def non_zero_bytes_filter)

lemma entropy_zeros: "0 < n \<Longrightarrow> entropy (replicate n 0) = 1 / 256"
  by (simp add: entropy_def unique_values_def)

lemma mean_zeros: "mean (replicate n 0) = 0"
  by (simp add: mean_def sum_list_replicate)

lemma variance_zeros: "variance (replicate n 0) = 0"
  by (simp add: variance_def mean_zeros sum_list_replicate)

lemma quality_score_zeros: "quality_score (replicate n 0) = 0"
  by (simp add: quality_score_def percentage_zeros)

lemma status_of_zero: "status_of 0 e = POOR" "status_of_eh575 0 e = POOR"
  by (simp_all add: status_of_def status_of_eh575_def)

text \<open>
  C1, as the code has it. A buffer that is empty or holds only zero bytes gets the text
  \<open>"No data"\<close> with score 0, and no ratio, count or label, when it has fewer than 100
  bytes; from 100 bytes on it gets the label POOR, the lowest of the four, with
  a non-zero percentage of 0, one distinct value (entropy \<open>1/256\<close>) and score 0.
\<close>

theorem zero_buffer_classification:
  assumes "\<forall>b\<in>set data. b = 0"
  shows "analyze_capture_quality (Some data) =
           (if length data < 100 then (0, No_data) else (0, Scored POOR 0 (1 / 256) 0 0)) \<and>
         analyze_capture_quality_eh575 (Some data) =
           (if length data < 100 then No_data else Rated POOR 0 (1 / 256)) \<and>
         (100 \<le> length data \<longrightarrow> unique_values data = 1)"
proof -
  obtain n where d: "data = replicate n 0"
    using all_zero_replicate [OF assms] by blast
  show ?thesis
    by (simp add: d analyze_capture_quality_def analyze_capture_quality_eh575_def
        percentage_zeros entropy_zeros variance_zeros quality_score_zeros status_of_zero
        unique_values_def)
qed

theorem zero_buffer_classification_witness:
  "set (replicate 100 (0::byte)) = {0} \<and>
   analyze_capture_quality (Some (replicate 100 0)) = (0, Scored POOR 0 (1 / 256) 0 0) \<and>
   analyze_capture_quality_eh575 (Some (replicate 100 0)) = Rated POOR 0 (1 / 256) \<and>
   unique_values (replicate 100 (0::byte)) = 1 \<and>
   analyze_capture_quality (Some []) = (0, No_data) \<and>
   analyze_capture_quality_eh575 (Some []) = No_data"
  using zero_buffer_classification [of "replicate 100 0"] zero_buffer_classification [of "[]"]
  by simp

text \<open>
  C1 as the specification words it puts the empty buffer and the buffer of 100 zero bytes
  in one and the same tier, and gives the empty buffer a distinct-value count. The code
  labels the second POOR and gives the first \<open>"No data"\<close>, which reports no entropy.
\<close>

theorem zero_buffer_tier_counterexample:
  "tier_rank (snd (analyze_capture_quality (Some (replicate 100 0)))) \<noteq>
     tier_rank (snd (analyze_capture_quality (Some []))) \<and>
   computed_entropy (snd (analyze_capture_quality (Some []))) = None"
  by (simp add: analyze_capture_quality_def percentage_zeros status_of_zero)

subsection \<open>The buffer \<open>bytes([1,2,3,4]*25)\<close>\<close>

lemma length_concat_replicate: "length (concat (replicate n xs)) = n * length xs"
  by (induction n) simp_all

lemma filter_concat_replicate:
  "filter P (concat (replicate n xs)) = concat (replicate n (filter P xs))"
  by (induction n) simp_all

lemma set_concat_replicate: "0 < n \<Longrightarrow> set (concat (replicate n xs)) = set xs"
  by (induction n) auto

lemma sum_list_concat_replicate:
  "sum_list (map f (concat (replicate n xs))) = real n * sum_list (map f xs)"
  by (induction n) (simp_all add: algebra_simps)

lemma sum_list_nat_concat_replicate:
  "sum_list (map g (concat (replicate n xs))) = n * sum_list (map g xs)" for g :: "'a \<Rightarrow> nat"
  by (induction n) simp_all

lemma percentage_pattern:
  "percentage (concat (replicate 25 [1, 2, 3, 4])) = 100"
  by (simp add: percentage_def non_zero_bytes_filter filter_concat_replicate
      length_concat_replicate)

lemma unique_values_pattern:
  "unique_values (concat (replicate 25 [1, 2, 3, 4])) = 4"
  by (simp add: unique_values_def set_concat_replicate)

lemma entropy_pattern: "entropy (concat (replicate 25 [1, 2, 3, 4])) = 1 / 64"
  by (simp add: entropy_def unique_values_pattern)

lemma mean_pattern: "mean (concat (replicate 25 [1, 2, 3, 4])) = 5 / 2"
  by (simp add: mean_def sum_list_nat_concat_replicate length_concat_replicate)

lemma variance_pattern: "variance (concat (replicate 25 [1, 2, 3, 4])) = 5 / 4"
  by (simp add: variance_def mean_pattern sum_list_concat_replicate length_concat_replicate
      power2_eq_square)

lemma quality_score_pattern: "quality_score (concat (replicate 25 [1, 2, 3, 4])) = 5 / 256"
  by (simp add: quality_score_def percentage_pattern entropy_pattern variance_pattern)

lemma label_pattern:
  "label (snd (analyze_capture_quality (Some (concat (replicate 25 [1, 2, 3, 4]))))) = Some POOR"
  "label (analyze_capture_quality_eh575 (Some (concat (replicate 25 [1, 2, 3, 4])))) = Some FAIR"
  by (simp_all add: analyze_capture_quality_def analyze_capture_quality_eh575_def
      length_concat_replicate percentage_pattern entropy_pattern status_of_def
      status_of_eh575_def)

lemma label_zeros:
  "label (snd (analyze_capture_quality (Some (replicate 100 0)))) = Some POOR"
  "label (analyze_capture_quality_eh575 (Some (replicate 100 0))) = Some POOR"
  by (simp_all add: analyze_capture_quality_def analyze_capture_quality_eh575_def
      percentage_zeros status_of_zero)

lemma fields_pattern:
  "computed_percentage (snd (analyze_capture_quality (Some (concat (replicate 25 [1, 2, 3, 4])))))
     = Some 100"
  "computed_entropy (snd (analyze_capture_quality (Some (concat (replicate 25 [1, 2, 3, 4])))))
     = Some (1 / 64)"
  "computed_percentage (analyze_capture_quality_eh575 (Some (concat (replicate 25 [1, 2, 3, 4]))))
     = Some 100"
  "computed_entropy (analyze_capture_quality_eh575 (Some (concat (replicate 25 [1, 2, 3, 4]))))
     = Some (1 / 64)"
  by (simp_all add: analyze_capture_quality_def analyze_capture_quality_eh575_def
      length_concat_replicate percentage_pattern entropy_pattern)

text \<open>
  C3 as the specification words it puts the buffer \<open>bytes([1,2,3,4]*25)\<close> in a tier
  strictly above the one of an empty or all-zero buffer. The cascade of
  \<open>adaptive_calibration.py\<close> asks an entropy above \<open>0.1\<close> for FAIR, and four distinct
  values give \<open>4/256\<close>: the buffer is labelled POOR, as the buffer of 100 zero bytes is.
\<close>

theorem pattern_buffer_not_above_zero_buffer_counterexample:
  "\<not> tier_rank (snd (analyze_capture_quality (Some (replicate 100 0))))
       < tier_rank (snd (analyze_capture_quality (Some (concat (replicate 25 [1, 2, 3, 4]))))) \<and>
   label (snd (analyze_capture_quality (Some (concat (replicate 25 [1, 2, 3, 4]))))) =
     label (snd (analyze_capture_quality (Some (replicate 100 0))))"
  by (simp add: label_pattern label_zeros)

text \<open>
  C3, as the code has it. The buffer \<open>bytes([1,2,3,4]*25)\<close> has 100 bytes; both variants
  compute a non-zero percentage of 100 (a ratio of 1) and an entropy of \<open>4/256\<close> (4
  distinct values). \<open>eh575_calibration_protocol.py\<close> labels it FAIR, strictly above the
  POOR of the buffer of 100 zero bytes; \<open>adaptive_calibration.py\<close> labels it POOR.
\<close>

theorem pattern_buffer_classification:
  "length (concat (replicate 25 [1, 2, 3, 4 :: byte])) = 100 \<and>
   percentage (concat (replicate 25 [1, 2, 3, 4])) / 100 = 1 \<and>
   unique_values (concat (replicate 25 [1, 2, 3, 4])) = 4 \<and>
   computed_percentage (snd (analyze_capture_quality (Some (concat (replicate 25 [1, 2, 3, 4])))))
     = Some 100 \<and>
   computed_entropy (snd (analyze_capture_quality (Some (concat (replicate 25 [1, 2, 3, 4])))))
     = Some (4 / 256) \<and>
   label (snd (analyze_capture_quality (Some (concat (replicate 25 [1, 2, 3, 4]))))) = Some POOR \<and>
   computed_percentage (analyze_capture_quality_eh575 (Some (concat (replicate 25 [1, 2, 3, 4]))))
     = Some 100 \<and>
   computed_entropy (analyze_capture_quality_eh575 (Some (concat (replicate 25 [1, 2, 3, 4]))))
     = Some (4 / 256) \<and>
   label (analyze_capture_quality_eh575 (Some (concat (replicate 25 [1, 2, 3, 4])))) = Some FAIR \<and>
   tier_rank (analyze_capture_quality_eh575 (Some (replicate 100 0)))
     < tier_rank (analyze_capture_quality_eh575 (Some (concat (replicate 25 [1, 2, 3, 4]))))"
  by (simp add: label_pattern label_zeros fields_pattern length_concat_replicate
      percentage_pattern unique_values_pattern)

subsection \<open>The non-zero percentage\<close>

text \<open>
  C6 as the specification words it ranges over every buffer. The one-byte buffer
  \<open>[1]\<close>, which is neither empty nor zero, gets the very result of the empty buffer,
  and that result carries no percentage at all.
\<close>

theorem short_buffer_same_as_empty_counterexample:
  "analyze_capture_quality (Some [1]) = analyze_capture_quality (Some []) \<and>
   analyze_capture_quality_eh575 (Some [1]) = analyze_capture_quality_eh575 (Some []) \<and>
   computed_percentage (snd (analyze_capture_quality (Some []))) \<noteq> Some 0"
  by (simp add: analyze_capture_quality_def analyze_capture_quality_eh575_def)

lemma percentage_small_iff:
  assumes "data \<noteq> []"
  shows "percentage data < 0.05 \<longleftrightarrow> 2000 * non_zero_bytes data < length data"
proof -
  have pos: "0 < real (length data)" using assms by simp
  have "percentage data < 0.05 \<longleftrightarrow> real (non_zero_bytes data) * 100 / real (length data) < 1 / 20"
    by (simp add: percentage_def)
  also have "\<dots> \<longleftrightarrow> real (non_zero_bytes data) * 100 < 1 / 20 * real (length data)"
    using pos by (simp add: pos_divide_less_eq)
  also have "\<dots> \<longleftrightarrow> real (2000 * non_zero_bytes data) < real (length data)"
    by simp
  also have "\<dots> \<longleftrightarrow> 2000 * non_zero_bytes data < length data"
    by (simp only: of_nat_less_iff)
  finally show ?thesis .
qed

text \<open>
  C6, as the code has it. A buffer shorter than 100 bytes, the empty one among them,
  gets \<open>"No data"\<close> whatever it holds. For a buffer of at least 100 bytes, the non-zero
  percentage the function computes is 0 exactly when every byte is zero; the returned
  text shows that percentage rounded to one decimal, and reads \<open>0.0% non-zero\<close> exactly
  when fewer than one byte in 2000 is non-zero: for every all-zero buffer, and for
  some that are not.
\<close>

theorem percentage_zero_iff_all_zero:
  "(length data < 100 \<longrightarrow>
      analyze_capture_quality (Some data) = (0, No_data) \<and>
      analyze_capture_quality_eh575 (Some data) = No_data) \<and>
   (100 \<le> length data \<longrightarrow>
      (computed_percentage (snd (analyze_capture_quality (Some data))) = Some 0
         \<longleftrightarrow> (\<forall>b\<in>set data. b = 0)) \<and>
      (computed_percentage (analyze_capture_quality_eh575 (Some data)) = Some 0
         \<longleftrightarrow> (\<forall>b\<in>set data. b = 0)) \<and>
      (reads_zero_percent (snd (analyze_capture_quality (Some data)))
         \<longleftrightarrow> 2000 * non_zero_bytes data < length data) \<and>
      (reads_zero_percent (analyze_capture_quality_eh575 (Some data))
         \<longleftrightarrow> 2000 * non_zero_bytes data < length data))"
proof (cases "length data < 100")
  case True
  then show ?thesis
    by (simp add: analyze_capture_quality_def analyze_capture_quality_eh575_def)
next
  case False
  then have ne: "data \<noteq> []" by auto
  show ?thesis
    using False percentage_zero_iff [OF ne] percentage_small_iff [OF ne]
    by (simp add: analyze_capture_quality_def analyze_capture_quality_eh575_def ne)
qed

lemma non_zero_bytes_examples:
  "non_zero_bytes (replicate 100 0) = 0"
  "non_zero_bytes (replicate 99 0 @ [7]) = 1"
  "non_zero_bytes (7 # replicate 2000 0) = 1"
  by (simp_all add: non_zero_bytes_filter)

theorem percentage_zero_iff_all_zero_witness:
  "length [1 :: byte] < 100 \<and>
   analyze_capture_quality (Some [1]) = (0, No_data) \<and>
   analyze_capture_quality_eh575 (Some [1]) = No_data \<and>
   100 \<le> length (replicate 100 (0::byte)) \<and>
   computed_percentage (snd (analyze_capture_quality (Some (replicate 100 0)))) = Some 0 \<and>
   computed_percentage (analyze_capture_quality_eh575 (Some (replicate 100 0))) = Some 0 \<and>
   reads_zero_percent (snd (analyze_capture_quality (Some (replicate 100 0)))) \<and>
   reads_zero_percent (analyze_capture_quality_eh575 (Some (replicate 100 0))) \<and>
   100 \<le> length (replicate 99 (0::byte) @ [7]) \<and>
   computed_percentage (snd (analyze_capture_quality (Some (replicate 99 0 @ [7])))) \<noteq> Some 0 \<and>
   computed_percentage (analyze_capture_quality_eh575 (Some (replicate 99 0 @ [7]))) \<noteq> Some 0 \<and>
   \<not> reads_zero_percent (snd (analyze_capture_quality (Some (replicate 99 0 @ [7])))) \<and>
   \<not> reads_zero_percent (analyze_capture_quality_eh575 (Some (replicate 99 0 @ [7]))) \<and>
   100 \<le> length (7 # replicate 2000 (0::byte)) \<and>
   computed_percentage (snd (analyze_capture_quality (Some (7 # replicate 2000 0)))) \<noteq> Some 0 \<and>
   reads_zero_percent (snd (analyze_capture_quality (Some (7 # replicate 2000 0)))) \<and>
   reads_zero_percent (analyze_capture_quality_eh575 (Some (7 # replicate 2000 0)))"
  using percentage_zero_iff_all_zero [of "[1]"]
    percentage_zero_iff_all_zero [of "replicate 100 0"]
    percentage_zero_iff_all_zero [of "replicate 99 0 @ [7]"]
    percentage_zero_iff_all_zero [of "7 # replicate 2000 0"]
  by (simp add: non_zero_bytes_examples)

lemma unique_values_pos: "data \<noteq> [] \<Longrightarrow> 1 \<le> unique_values data"
  by (simp add: unique_values_def Suc_le_eq card_gt_0_iff)

subsection \<open>The range of the fields\<close>

text \<open>
  C7 as the specification words it ranges over every buffer. The result for the
  three-byte buffer \<open>[1, 2, 3]\<close> is \<open>"No data"\<close> in both variants: it carries no
  non-zero ratio and no distinct-value count to lie in any range.
\<close>

theorem short_buffer_has_no_fields_counterexample:
  "analyze_capture_quality (Some [1, 2, 3]) = (0, No_data) \<and>
   computed_percentage (snd (analyze_capture_quality (Some [1, 2, 3]))) = None \<and>
   computed_entropy (snd (analyze_capture_quality (Some [1, 2, 3]))) = None \<and>
   computed_percentage (analyze_capture_quality_eh575 (Some [1, 2, 3])) = None \<and>
   computed_entropy (analyze_capture_quality_eh575 (Some [1, 2, 3])) = None"
  by (simp add: analyze_capture_quality_def analyze_capture_quality_eh575_def)

text \<open>
  C7, as the code has it. For a buffer of at least 100 bytes, the result of both variants
  carries the computed non-zero percentage and the entropy, the distinct-value count
  over 256; the ratio, the percentage over 100, lies in \<open>[0, 1]\<close>, and the count is
  between 1 and 256.
\<close>

theorem result_fields_in_range:
  assumes "100 \<le> length data"
  shows "computed_percentage (snd (analyze_capture_quality (Some data))) = Some (percentage data) \<and>
         computed_entropy (snd (analyze_capture_quality (Some data))) =
           Some (real (unique_values data) / 256) \<and>
         computed_percentage (analyze_capture_quality_eh575 (Some data)) = Some (percentage data) \<and>
         computed_entropy (analyze_capture_quality_eh575 (Some data)) =
           Some (real (unique_values data) / 256) \<and>
         0 \<le> percentage data / 100 \<and> percentage data / 100 \<le> 1 \<and>
         1 \<le> unique_values data \<and> unique_values data \<le> 256"
proof -
  from assms have ne: "data \<noteq> []" by auto
  from assms have long: "\<not> length data < 100" by simp
  have "0 \<le> percentage data / 100" "percentage data / 100 \<le> 1"
    using percentage_nonneg [of data] percentage_le [of data] by simp_all
  then show ?thesis
    using unique_values_pos [OF ne] unique_values_le [of data]
    by (simp add: analyze_capture_quality_def analyze_capture_quality_eh575_def ne long
        entropy_def)
qed

theorem result_fields_in_range_witness:
  "100 \<le> length (concat (replicate 25 [1, 2, 3, 4 :: byte])) \<and>
   computed_percentage (snd (analyze_capture_quality (Some (concat (replicate 25 [1, 2, 3, 4])))))
     = Some 100 \<and>
   computed_entropy (snd (analyze_capture_quality (Some (concat (replicate 25 [1, 2, 3, 4])))))
     = Some (4 / 256) \<and>
   computed_percentage (analyze_capture_quality_eh575 (Some (concat (replicate 25 [1, 2, 3, 4]))))
     = Some 100 \<and>
   computed_entropy (analyze_capture_quality_eh575 (Some (concat (replicate 25 [1, 2, 3, 4]))))
     = Some (4 / 256) \<and>
   (0::real) \<le> 100 / 100 \<and> (100::real) / 100 \<le> 1 \<and> (1::nat) \<le> 4 \<and> (4::nat) \<le> 256"
  using result_fields_in_range [of "concat (replicate 25 [1, 2, 3, 4])"]
  by (simp add: length_concat_replicate percentage_pattern unique_values_pattern)

subsection \<open>The length guard\<close>

text \<open>
  C9. A buffer of fewer than 100 bytes, whatever it holds, gets score 0 and the text
  \<open>"No data"\<close>; a result carries a label exactly when the buffer has at least 100
  bytes.
\<close>

theorem short_buffer_no_data:
  "(length data < 100 \<longrightarrow>
      analyze_capture_quality (Some data) = (0, No_data) \<and>
      analyze_capture_quality_eh575 (Some data) = No_data) \<and>
   (label (snd (analyze_capture_quality (Some data))) \<noteq> None \<longleftrightarrow> 100 \<le> length data) \<and>
   (label (analyze_capture_quality_eh575 (Some data)) \<noteq> None \<longleftrightarrow> 100 \<le> length data)"
  by (auto simp: analyze_capture_quality_def analyze_capture_quality_eh575_def)

theorem short_buffer_no_data_witness:
  "length [0x53, 0x49, 0x47, 0x45, 0x01 :: byte] < 100 \<and>
   analyze_capture_quality (Some [0x53, 0x49, 0x47, 0x45, 0x01]) = (0, No_data) \<and>
   analyze_capture_quality_eh575 (Some [0x53, 0x49, 0x47, 0x45, 0x01]) = No_data \<and>
   label (snd (analyze_capture_quality (Some [0x53, 0x49, 0x47, 0x45, 0x01]))) = None"
  using short_buffer_no_data [of "[0x53, 0x49, 0x47, 0x45, 0x01]"]
  by simp

section \<open>Properties of the probe runner\<close>

subsection \<open>The five ways through the body\<close>

lemmas py_defs = return_def bind_def try_except_def print_def call_write_def call_read_def
  bytes_def

lemma send_and_receive_as_adaptive:
  "send_and_receive dev cmd n t = send_and_receive_adaptive dev cmd n t ''Sent''"
  by (simp add: send_and_receive_def send_and_receive_adaptive_def)

lemma run_bad_frame:
  assumes "\<not> list_all (\<lambda>x. 0 \<le> x \<and> x < 256) cmd"
  shows "send_and_receive_adaptive dev cmd n t descr (d, tr) =
           (Inr None, (d, tr @ [Print (Send_error ''bytes must be in range(0, 256)'')]))"
  using assms by (simp add: send_and_receive_adaptive_def py_defs)

lemma run_write_raises:
  assumes "list_all (\<lambda>x. 0 \<le> x \<and> x < 256) cmd"
    and "dev_write dev d 0x01 (map word_of_int cmd) t = (Inl e, d1)"
  shows "send_and_receive_adaptive dev cmd n t descr (d, tr) =
           (Inr None,
            (d1, tr @ [Write 0x01 (map word_of_int cmd) t, Print (Send_error (str e))]))"
  using assms by (cases e) (simp_all add: send_and_receive_adaptive_def py_defs)

lemma run_read_returns:
  assumes "list_all (\<lambda>x. 0 \<le> x \<and> x < 256) cmd"
    and "dev_write dev d 0x01 (map word_of_int cmd) t = (Inr k, d1)"
    and "dev_read dev d1 0x82 n t = (Inr response, d2)"
  shows "send_and_receive_adaptive dev cmd n t descr (d, tr) =
           (Inr (Some response),
            (d2, tr @ [Write 0x01 (map word_of_int cmd) t, Print (Sent descr cmd),
                       Read 0x82 n t,
                       Print (Response (take 20 response)
                         (if length response > 20 then Some (length response) else None))]))"
  using assms by (simp add: send_and_receive_adaptive_def py_defs)

lemma run_read_raises_USBError:
  assumes "list_all (\<lambda>x. 0 \<le> x \<and> x < 256) cmd"
    and "dev_write dev d 0x01 (map word_of_int cmd) t = (Inr k, d1)"
    and "dev_read dev d1 0x82 n t = (Inl (USBError m), d2)"
  shows "send_and_receive_adaptive dev cmd n t descr (d, tr) =
           (Inr None,
            (d2, tr @ [Write 0x01 (map word_of_int cmd) t, Print (Sent descr cmd),
                       Read 0x82 n t] @
                 (if substring_in ''timeout'' (lower m) then [] else [Print (Read_error m)])))"
  using assms by (simp add: send_and_receive_adaptive_def py_defs)

lemma run_read_raises_other:
  assumes "list_all (\<lambda>x. 0 \<le> x \<and> x < 256) cmd"
    and "dev_write dev d 0x01 (map word_of_int cmd) t = (Inr k, d1)"
    and "dev_read dev d1 0x82 n t = (Inl (Other_Exception m), d2)"
  shows "send_and_receive_adaptive dev cmd n t descr (d, tr) =
           (Inr None,
            (d2, tr @ [Write 0x01 (map word_of_int cmd) t, Print (Sent descr cmd),
                       Read 0x82 n t, Print (Send_error m)]))"
  using assms by (simp add: send_and_receive_adaptive_def py_defs)

subsection \<open>No exception leaves the function\<close>

lemma never_raises:
  "\<exists>r s'. send_and_receive_adaptive dev cmd n t descr (d, tr) = (Inr r, s')"
proof (cases "list_all (\<lambda>x. 0 \<le> x \<and> x < 256) cmd")
  case False
  then show ?thesis by (simp add: run_bad_frame)
next
  case valid: True
  obtain w d1 where w: "dev_write dev d 0x01 (map word_of_int cmd) t = (w, d1)"
    by (cases "dev_write dev d 0x01 (map word_of_int cmd) t")
  show ?thesis
  proof (cases w)
    case (Inl e)
    with valid w show ?thesis by (simp add: run_write_raises)
  next
    case (Inr k)
    obtain r d2 where r: "dev_read dev d1 0x82 n t = (r, d2)"
      by (cases "dev_read dev d1 0x82 n t")
    show ?thesis
    proof (cases r)
      case (Inr response)
      with valid w \<open>w = Inr k\<close> r show ?thesis by (simp add: run_read_returns)
    next
      case (Inl e)
      with valid w \<open>w = Inr k\<close> r show ?thesis
        by (cases e) (simp_all add: run_read_raises_USBError run_read_raises_other)
    qed
  qed
qed

lemma failure_gives_None:
  assumes "isl (fst (dev_write dev d 0x01 (map word_of_int cmd) t)) \<or>
           isl (fst (dev_read dev (snd (dev_write dev d 0x01 (map word_of_int cmd) t)) 0x82 n t))"
  shows "fst (send_and_receive_adaptive dev cmd n t descr (d, tr)) = Inr None"
proof (cases "list_all (\<lambda>x. 0 \<le> x \<and> x < 256) cmd")
  case False
  then show ?thesis by (simp add: run_bad_frame)
next
  case valid: True
  obtain w d1 where w: "dev_write dev d 0x01 (map word_of_int cmd) t = (w, d1)"
    by (cases "dev_write dev d 0x01 (map word_of_int cmd) t")
  show ?thesis
  proof (cases w)
    case (Inl e)
    with valid w show ?thesis by (simp add: run_write_raises)
  next
    case (Inr k)
    obtain r d2 where r: "dev_read dev d1 0x82 n t = (r, d2)"
      by (cases "dev_read dev d1 0x82 n t")
    from assms w Inr r obtain e where "r = Inl e"
      by (cases r) simp_all
    with valid w \<open>w = Inr k\<close> r show ?thesis
      by (cases e) (simp_all add: run_read_raises_USBError run_read_raises_other)
  qed
qed

text \<open>
  C10. Whatever the device does, \<open>send_and_receive\<close> ends with a value and not with
  an exception; and when \<open>dev.write\<close> raises, or \<open>dev.read\<close> raises after a
  successful write, that value is \<open>None\<close>. This holds for the variant of
  \<open>capture_fingerprint.py\<close> and for the one of \<open>adaptive_calibration.py\<close>.
\<close>

theorem send_and_receive_catches_transport_failures:
  "\<not> isl (fst (send_and_receive dev cmd n t (d, tr))) \<and>
   \<not> isl (fst (send_and_receive_adaptive dev cmd n t descr (d, tr))) \<and>
   (isl (fst (dev_write dev d 0x01 (map word_of_int cmd) t)) \<or>
    isl (fst (dev_read dev (snd (dev_write dev d 0x01 (map word_of_int cmd) t)) 0x82 n t))
    \<longrightarrow> fst (send_and_receive dev cmd n t (d, tr)) = Inr None \<and>
        fst (send_and_receive_adaptive dev cmd n t descr (d, tr)) = Inr None)"
proof -
  have "\<not> isl (fst (send_and_receive_adaptive dev cmd n t x (d, tr)))" for x
    using never_raises [of dev cmd n t x d tr] by auto
  then show ?thesis
    by (auto simp: send_and_receive_as_adaptive failure_gives_None)
qed

theorem send_and_receive_catches_transport_failures_witness:
  "isl (fst (dev_write stub_write_fails () 0x01 (map word_of_int [0x45, 0x47, 0x49, 0x53]) 2000)) \<and>
   fst (send_and_receive stub_write_fails [0x45, 0x47, 0x49, 0x53] 64 2000 ((), [])) = Inr None \<and>
   isl (fst (dev_read stub_read_broken
     (snd (dev_write stub_read_broken () 0x01 (map word_of_int [0x45, 0x47, 0x49, 0x53]) 2000))
     0x82 64 2000)) \<and>
   fst (send_and_receive_adaptive stub_read_broken [0x45, 0x47, 0x49, 0x53] 64 2000 ''CAPTURE''
     ((), [])) = Inr None"
  using
    send_and_receive_catches_transport_failures
      [of stub_write_fails "[0x45, 0x47, 0x49, 0x53]" 64 2000 "()" "[]" "''CAPTURE''"]
    send_and_receive_catches_transport_failures
      [of stub_read_broken "[0x45, 0x47, 0x49, 0x53]" 64 2000 "()" "[]" "''CAPTURE''"]
  by (simp add: stub_write_fails_def stub_read_broken_def)

subsection \<open>A failing write\<close>

text \<open>
  C4, as the code has it: when \<open>dev.write\<close> raises, the function prints the send-error
  line with the text of the exception and returns \<open>None\<close>; the trace gains the write
  and the printed line and no call of \<open>dev.read\<close>.
\<close>

theorem write_failure_returns_None_without_read:
  assumes "list_all (\<lambda>x. 0 \<le> x \<and> x < 256) cmd"
    and "dev_write dev d 0x01 (map word_of_int cmd) t = (Inl e, d1)"
  shows "send_and_receive dev cmd n t (d, tr) =
           (Inr None,
            (d1, tr @ [Write 0x01 (map word_of_int cmd) t, Print (Send_error (str e))])) \<and>
         filter is_Read (snd (snd (send_and_receive dev cmd n t (d, tr)))) = filter is_Read tr"
  using assms by (simp add: send_and_receive_as_adaptive run_write_raises)

theorem write_failure_returns_None_without_read_witness:
  "list_all (\<lambda>x. 0 \<le> x \<and> x < 256) [0x45, 0x47, 0x49, 0x53 :: int] \<and>
   dev_write stub_write_fails () 0x01 (map word_of_int [0x45, 0x47, 0x49, 0x53]) 2000 =
     (Inl (USBError ''[Errno 19] No such device''), ()) \<and>
   send_and_receive stub_write_fails [0x45, 0x47, 0x49, 0x53] 64 2000 ((), []) =
     (Inr None,
      ((), [Write 0x01 [0x45, 0x47, 0x49, 0x53] 2000,
            Print (Send_error ''[Errno 19] No such device'')]))"
  using write_failure_returns_None_without_read
    [of "[0x45, 0x47, 0x49, 0x53]" stub_write_fails "()" 2000
        "USBError ''[Errno 19] No such device''" "()" 64 "[]"]
  by (simp add: stub_write_fails_def)

text \<open>
  C4 as the specification words it has the caller receive an error outcome of kind
  SendFailed. The caller of the stub whose write fails receives \<open>None\<close>, the value
  the caller of the stub that times out receives.
\<close>

theorem write_failure_counterexample:
  "fst (send_and_receive stub_write_fails [0x45, 0x47, 0x49, 0x53] 64 2000 ((), [])) = Inr None \<and>
   fst (send_and_receive stub_times_out [0x45, 0x47, 0x49, 0x53] 64 2000 ((), [])) = Inr None"
  by (simp add: send_and_receive_as_adaptive run_write_raises run_read_raises_USBError
      stub_write_fails_def stub_times_out_def)

subsection \<open>A read that times out\<close>

text \<open>The test \<open>'timeout' in str(e).lower()\<close> on three texts.\<close>

lemma timeout_test_examples:
  "substring_in ''timeout'' (lower ''[Errno 110] Operation Timeout'')"
  "\<not> substring_in ''timeout'' (lower ''[Errno 110] Operation timed out'')"
  "\<not> substring_in ''timeout'' (lower ''[Errno 32] Pipe error'')"
  by (simp_all add: lower_def lower_char_def)

text \<open>
  C5, as the code has it. The transport reports that no bytes arrived in time by
  raising a \<open>USBError\<close> out of \<open>dev.read\<close>. For every such exception, whatever its
  text, the function returns \<open>None\<close>, the value it returns for every failure, and
  raises nothing; the write and the read have taken place.
\<close>

theorem read_USBError_returns_None:
  assumes "list_all (\<lambda>x. 0 \<le> x \<and> x < 256) cmd"
    and "dev_write dev d 0x01 (map word_of_int cmd) t = (Inr k, d1)"
    and "dev_read dev d1 0x82 n t = (Inl (USBError m), d2)"
  shows "fst (send_and_receive dev cmd n t (d, tr)) = Inr None \<and>
         (\<exists>rest. snd (send_and_receive dev cmd n t (d, tr)) =
            (d2, tr @ [Write 0x01 (map word_of_int cmd) t, Print (Sent ''Sent'' cmd),
                       Read 0x82 n t] @ rest))"
  using assms by (simp add: send_and_receive_as_adaptive run_read_raises_USBError)

theorem read_USBError_returns_None_witness:
  "list_all (\<lambda>x. 0 \<le> x \<and> x < 256) [0x45, 0x47, 0x49, 0x53 :: int] \<and>
   dev_write stub_timed_out () 0x01 (map word_of_int [0x45, 0x47, 0x49, 0x53]) 2000 =
     (Inr 4, ()) \<and>
   dev_read stub_timed_out () 0x82 64 2000 =
     (Inl (USBError ''[Errno 110] Operation timed out''), ()) \<and>
   fst (send_and_receive stub_timed_out [0x45, 0x47, 0x49, 0x53] 64 2000 ((), [])) = Inr None \<and>
   (\<exists>rest. snd (send_and_receive stub_timed_out [0x45, 0x47, 0x49, 0x53] 64 2000 ((), [])) =
      ((), [Write 0x01 [0x45, 0x47, 0x49, 0x53] 2000,
            Print (Sent ''Sent'' [0x45, 0x47, 0x49, 0x53]), Read 0x82 64 2000] @ rest))"
  using read_USBError_returns_None
    [of "[0x45, 0x47, 0x49, 0x53]" stub_timed_out "()" 2000 4 "()" 64
        "''[Errno 110] Operation timed out''" "()" "[]"]
  by (simp add: stub_timed_out_def)

text \<open>
  C5 as the specification words it has a timeout end in an outcome of its own that is
  not an error outcome. With the text of libusb's timeout error the function prints
  the read-error line, and the caller receives what the caller of the stub with a pipe
  error receives; the same holds of the return value when the text contains
  \<open>Timeout\<close>.
\<close>

theorem timeout_reported_as_read_error_counterexample:
  "send_and_receive stub_timed_out [0x45, 0x47, 0x49, 0x53] 64 2000 ((), []) =
     (Inr None,
      ((), [Write 0x01 [0x45, 0x47, 0x49, 0x53] 2000,
            Print (Sent ''Sent'' [0x45, 0x47, 0x49, 0x53]), Read 0x82 64 2000,
            Print (Read_error ''[Errno 110] Operation timed out'')])) \<and>
   fst (send_and_receive stub_timed_out [0x45, 0x47, 0x49, 0x53] 64 2000 ((), [])) =
     fst (send_and_receive stub_pipe_error [0x45, 0x47, 0x49, 0x53] 64 2000 ((), [])) \<and>
   fst (send_and_receive stub_times_out [0x45, 0x47, 0x49, 0x53] 64 2000 ((), [])) =
     fst (send_and_receive stub_pipe_error [0x45, 0x47, 0x49, 0x53] 64 2000 ((), []))"
  by (simp add: send_and_receive_as_adaptive run_read_raises_USBError timeout_test_examples
      stub_timed_out_def stub_pipe_error_def stub_times_out_def)

subsection \<open>Every transport outcome\<close>

text \<open>
  C2, as the code has it. When the write succeeds and the read returns, the function
  returns the response. A failed write and a failed read both end in the return value
  \<open>None\<close>, the exception caught: the return value does not tell one failure from
  another. The printed output alone differs, by the class and the text of the
  exception: the send-error line for a failed write and for an exception of the read
  that is not a \<open>USBError\<close>; for a \<open>USBError\<close> of the read, the read-error line unless
  its text contains \<open>timeout\<close> in any case, and nothing then.
\<close>

theorem transport_outcomes:
  assumes "list_all (\<lambda>x. 0 \<le> x \<and> x < 256) cmd"
  shows "(dev_write dev d 0x01 (map word_of_int cmd) t = (Inl e, d1) \<longrightarrow>
            send_and_receive dev cmd n t (d, tr) =
              (Inr None,
               (d1, tr @ [Write 0x01 (map word_of_int cmd) t, Print (Send_error (str e))])) \<and>
            send_and_receive_adaptive dev cmd n t descr (d, tr) =
              (Inr None,
               (d1, tr @ [Write 0x01 (map word_of_int cmd) t, Print (Send_error (str e))]))) \<and>
         (dev_write dev d 0x01 (map word_of_int cmd) t = (Inr k, d1) \<and>
          dev_read dev d1 0x82 n t = (Inr response, d2) \<longrightarrow>
            send_and_receive dev cmd n t (d, tr) =
              (Inr (Some response),
               (d2, tr @ [Write 0x01 (map word_of_int cmd) t, Print (Sent ''Sent'' cmd),
                          Read 0x82 n t,
                          Print (Response (take 20 response)
                            (if length response > 20 then Some (length response) else None))])) \<and>
            send_and_receive_adaptive dev cmd n t descr (d, tr) =
              (Inr (Some response),
               (d2, tr @ [Write 0x01 (map word_of_int cmd) t, Print (Sent descr cmd),
                          Read 0x82 n t,
                          Print (Response (take 20 response)
                            (if length response > 20 then Some (length response) else None))]))) \<and>
         (dev_write dev d 0x01 (map word_of_int cmd) t = (Inr k, d1) \<and>
          dev_read dev d1 0x82 n t = (Inl e, d2) \<longrightarrow>
            send_and_receive dev cmd n t (d, tr) =
              (Inr None,
               (d2, tr @ [Write 0x01 (map word_of_int cmd) t, Print (Sent ''Sent'' cmd),
                          Read 0x82 n t] @
                    (case e of
                       USBError m \<Rightarrow>
                         if substring_in ''timeout'' (lower m) then [] else [Print (Read_error m)]
                     | Other_Exception m \<Rightarrow> [Print (Send_error m)]))) \<and>
            send_and_receive_adaptive dev cmd n t descr (d, tr) =
              (Inr None,
               (d2, tr @ [Write 0x01 (map word_of_int cmd) t, Print (Sent descr cmd),
                          Read 0x82 n t] @
                    (case e of
                       USBError m \<Rightarrow>
                         if substring_in ''timeout'' (lower m) then [] else [Print (Read_error m)]
                     | Other_Exception m \<Rightarrow> [Print (Send_error m)]))))"
  using assms
  by (cases e)
    (simp_all add: send_and_receive_as_adaptive run_write_raises run_read_returns
      run_read_raises_USBError run_read_raises_other)

theorem transport_outcomes_witness:
  "list_all (\<lambda>x. 0 \<le> x \<and> x < 256) [0x45, 0x47, 0x49, 0x53 :: int] \<and>
   dev_write stub_answers () 0x01 (map word_of_int [0x45, 0x47, 0x49, 0x53]) 2000 =
     (Inr 4, ()) \<and>
   dev_read stub_answers () 0x82 64 2000 =
     (Inr [0x53, 0x49, 0x47, 0x45, 0x00, 0x00, 0x01], ()) \<and>
   send_and_receive stub_answers [0x45, 0x47, 0x49, 0x53] 64 2000 ((), []) =
     (Inr (Some [0x53, 0x49, 0x47, 0x45, 0x00, 0x00, 0x01]),
      ((), [Write 0x01 [0x45, 0x47, 0x49, 0x53] 2000,
            Print (Sent ''Sent'' [0x45, 0x47, 0x49, 0x53]), Read 0x82 64 2000,
            Print (Response [0x53, 0x49, 0x47, 0x45, 0x00, 0x00, 0x01] None)])) \<and>
   dev_read stub_pipe_error () 0x82 64 2000 = (Inl (USBError ''[Errno 32] Pipe error''), ()) \<and>
   send_and_receive stub_pipe_error [0x45, 0x47, 0x49, 0x53] 64 2000 ((), []) =
     (Inr None,
      ((), [Write 0x01 [0x45, 0x47, 0x49, 0x53] 2000,
            Print (Sent ''Sent'' [0x45, 0x47, 0x49, 0x53]), Read 0x82 64 2000,
            Print (Read_error ''[Errno 32] Pipe error'')])) \<and>
   dev_read stub_timed_out () 0x82 64 2000 =
     (Inl (USBError ''[Errno 110] Operation timed out''), ()) \<and>
   send_and_receive_adaptive stub_timed_out [0x45, 0x47, 0x49, 0x53] 64 2000 ''CAPTURE''
       ((), []) =
     (Inr None,
      ((), [Write 0x01 [0x45, 0x47, 0x49, 0x53] 2000,
            Print (Sent ''CAPTURE'' [0x45, 0x47, 0x49, 0x53]), Read 0x82 64 2000,
            Print (Read_error ''[Errno 110] Operation timed out'')])) \<and>
   dev_write stub_write_fails () 0x01 (map word_of_int [0x45, 0x47, 0x49, 0x53]) 2000 =
     (Inl (USBError ''[Errno 19] No such device''), ()) \<and>
   send_and_receive_adaptive stub_write_fails [0x45, 0x47, 0x49, 0x53] 64 2000 ''CAPTURE''
       ((), []) =
     (Inr None,
      ((), [Write 0x01 [0x45, 0x47, 0x49, 0x53] 2000,
            Print (Send_error ''[Errno 19] No such device'')]))"
  using timeout_test_examples
    transport_outcomes
      [of "[0x45, 0x47, 0x49, 0x53]" stub_answers "()" 2000 "Other_Exception []" "()" 64 "[]"
          "''CAPTURE''" 4 "[0x53, 0x49, 0x47, 0x45, 0x00, 0x00, 0x01]" "()"]
    transport_outcomes
      [of "[0x45, 0x47, 0x49, 0x53]" stub_pipe_error "()" 2000
          "USBError ''[Errno 32] Pipe error''" "()" 64 "[]" "''CAPTURE''" 4 "[]" "()"]
    transport_outcomes
      [of "[0x45, 0x47, 0x49, 0x53]" stub_timed_out "()" 2000
          "USBError ''[Errno 110] Operation timed out''" "()" 64 "[]" "''CAPTURE''" 4 "[]" "()"]
    transport_outcomes
      [of "[0x45, 0x47, 0x49, 0x53]" stub_write_fails "()" 2000
          "USBError ''[Errno 19] No such device''" "()" 64 "[]" "''CAPTURE''" 4 "[]" "()"]
  by (simp add: stub_answers_def stub_pipe_error_def stub_timed_out_def stub_write_fails_def)

text \<open>
  C2 as the specification words it has a non-timeout error reach the caller unmodified
  and differ from a timeout in the result. The caller of the stub whose read raises a
  pipe error receives what the caller of the stub that times out receives, and not the
  exception.
\<close>

theorem read_error_not_surfaced_counterexample:
  "fst (send_and_receive stub_pipe_error [0x45, 0x47, 0x49, 0x53] 64 2000 ((), [])) =
     fst (send_and_receive stub_times_out [0x45, 0x47, 0x49, 0x53] 64 2000 ((), [])) \<and>
   fst (send_and_receive stub_pipe_error [0x45, 0x47, 0x49, 0x53] 64 2000 ((), [])) \<noteq>
     Inl (USBError ''[Errno 32] Pipe error'') \<and>
   fst (send_and_receive_adaptive stub_pipe_error [0x45, 0x47, 0x49, 0x53] 64 2000 ''CAPTURE''
         ((), [])) =
     fst (send_and_receive_adaptive stub_times_out [0x45, 0x47, 0x49, 0x53] 64 2000 ''CAPTURE''
         ((), []))"
  by (simp add: send_and_receive_as_adaptive run_read_raises_USBError
      stub_pipe_error_def stub_times_out_def)

section \<open>The classifier among the effects\<close>

text \<open>
  C8. Run as a Python computation, the classifier gives the same result from any two
  states of device and trace and leaves the state as it found it: it calls no device
  and prints nothing. Two calls on the same buffer give identical results, also with a
  probe run between them.
\<close>

theorem classifier_is_pure:
  "fst (analyze_capture_quality_py data s) = fst (analyze_capture_quality_py data s') \<and>
   snd (analyze_capture_quality_py data s) = s \<and>
   fst (analyze_capture_quality_eh575_py data s) =
     fst (analyze_capture_quality_eh575_py data s') \<and>
   snd (analyze_capture_quality_eh575_py data s) = s \<and>
   bind (analyze_capture_quality_py data) (\<lambda>r1.
     bind (send_and_receive dev cmd n t) (\<lambda>_.
     bind (analyze_capture_quality_py data) (\<lambda>r2. return (r1 = r2)))) s =
     (Inr True, snd (send_and_receive dev cmd n t s)) \<and>
   bind (analyze_capture_quality_eh575_py data) (\<lambda>r1.
     bind (send_and_receive_adaptive dev cmd n t descr) (\<lambda>_.
     bind (analyze_capture_quality_eh575_py data) (\<lambda>r2. return (r1 = r2)))) s =
     (Inr True, snd (send_and_receive_adaptive dev cmd n t descr s))"
proof -
  obtain d tr where s: "s = (d, tr)" by (cases s)
  obtain r1 s1 where a: "send_and_receive_adaptive dev cmd n t ''Sent'' (d, tr) = (Inr r1, s1)"
    using never_raises [of dev cmd n t "''Sent''" d tr] by auto
  obtain r2 s2 where b: "send_and_receive_adaptive dev cmd n t descr (d, tr) = (Inr r2, s2)"
    using never_raises [of dev cmd n t descr d tr] by auto
  show ?thesis
    by (simp add: analyze_capture_quality_py_def analyze_capture_quality_eh575_py_def
        return_def bind_def s send_and_receive_as_adaptive a b)
qed

end
